theory Spec2Isabelle
  imports Main "HOL-Library.Word" "HOL-Library.Sublist"
begin

section \<open>The tool server of main.py\<close>

text \<open>
  The program is one Python module: a bearer-token provider, and three tools registered on
  a FastMCP server (\<open>validate\<close>, \<open>add_numbers\<close>, \<open>generate_meme\<close>). The embedding follows
  the module top to bottom. Python \<open>str\<close> is modelled as \<open>string\<close>, a Python \<open>int\<close> as
  \<open>int\<close>, a \<open>dict\<close> with string keys as an association list read with \<open>map_of\<close>, a
  raised exception as the \<open>Inl\<close> branch of a sum.
\<close>

subsection \<open>Module constants\<close>

definition TOKEN :: string where
  "TOKEN = ''auth_token''"

definition MY_NUMBER :: string where
  "MY_NUMBER = ''919818039142''"

subsection \<open>Auth provider\<close>

text \<open>
  \<open>AccessToken\<close> as the provider builds it: four keyword arguments. \<open>expires_at=None\<close> is
  the \<open>None\<close> of an optional integer. The provider object keeps the one field the method
  reads, \<open>self.token\<close>.
\<close>

record AccessToken =
  token :: string
  client_id :: string
  scopes :: "string list"
  expires_at :: "int option"

record SimpleBearerAuthProvider =
  self_token :: string

definition load_access_token :: "SimpleBearerAuthProvider \<Rightarrow> string \<Rightarrow> AccessToken option" where
  "load_access_token self tok =
     (if tok = self_token self
      then Some \<lparr>token = tok, client_id = ''math-client'', scopes = [''*''], expires_at = None\<rparr>
      else None)"

text \<open>The provider the server is built with: \<open>SimpleBearerAuthProvider(TOKEN)\<close>.\<close>

definition mcp_auth :: SimpleBearerAuthProvider where
  "mcp_auth = \<lparr>self_token = TOKEN\<rparr>"

subsection \<open>Tool results and the registered tools\<close>

datatype TextContent = TextContent (tc_type: string) (tc_text: string)

text \<open>The names under which the three decorated functions are registered, in source order.\<close>

definition mcp_tools :: "string list" where
  "mcp_tools = [''validate'', ''add_numbers'', ''generate_meme'']"

definition validate :: string where
  "validate = MY_NUMBER"

subsection \<open>Python values as \<open>resp.json()\<close> returns them\<close>

text \<open>
  A JSON document parses to \<open>None\<close>, a \<open>bool\<close>, an \<open>int\<close>, a \<open>float\<close>, a \<open>str\<close>, a
  \<open>list\<close> or a \<open>dict\<close> with string keys. A float is carried as its IEEE 754 binary64 bit
  pattern; the only thing the program asks of it is whether it is zero, and its text.
\<close>

datatype pyval =
    PNone
  | PBool bool
  | PInt int
  | PFloat "64 word"
  | PStr string
  | PList "pyval list"
  | PDict "(string \<times> pyval) list"

text \<open>Truth value testing, as \<open>not x\<close> applies it.\<close>

fun py_truthy :: "pyval \<Rightarrow> bool" where
  "py_truthy PNone = False"
| "py_truthy (PBool b) = b"
| "py_truthy (PInt i) = (i \<noteq> 0)"
| "py_truthy (PFloat w) = (w \<noteq> 0 \<and> w \<noteq> 0x8000000000000000)"
| "py_truthy (PStr s) = (s \<noteq> [])"
| "py_truthy (PList xs) = (xs \<noteq> [])"
| "py_truthy (PDict kvs) = (kvs \<noteq> [])"

fun py_type_name :: "pyval \<Rightarrow> string" where
  "py_type_name PNone = ''NoneType''"
| "py_type_name (PBool b) = ''bool''"
| "py_type_name (PInt i) = ''int''"
| "py_type_name (PFloat w) = ''float''"
| "py_type_name (PStr s) = ''str''"
| "py_type_name (PList xs) = ''list''"
| "py_type_name (PDict kvs) = ''dict''"

subsection \<open>Exceptions\<close>

text \<open>
  An exception is an instance of Python's \<open>Exception\<close>: its class name and the text
  \<open>str(e)\<close> gives. The two the tool body can raise by itself are a \<open>KeyError\<close> from a
  subscript and an \<open>AttributeError\<close> from calling \<open>.get\<close> on a value that is not a dict.
  Everything else comes from the HTTP library and is an input of the model. Signals that
  derive from \<open>BaseException\<close> only (task cancellation, keyboard interrupt) are not raised
  by the HTTP call or the parsing and are outside the model.
\<close>

datatype exn = Exn (exn_class: string) (exn_str: string)

text \<open>A text between single quotes, as \<open>repr\<close> writes a plain key or name.\<close>

definition squote :: "string \<Rightarrow> string" where
  "squote s = CHR 0x27 # s @ [CHR 0x27]"

text \<open>
  \<open>d[k]\<close> on a missing key raises \<open>KeyError(k)\<close>, whose \<open>str\<close> is \<open>repr(k)\<close>; the only
  subscript of the program has the literal key \<open>memeUrl\<close>, whose \<open>repr\<close> is the key between
  single quotes. \<open>v.get\<close> on a value without that attribute raises \<open>AttributeError\<close>.
\<close>

definition KeyError :: "string \<Rightarrow> exn" where
  "KeyError k = Exn ''KeyError'' (squote k)"

definition AttributeError :: "pyval \<Rightarrow> string \<Rightarrow> exn" where
  "AttributeError v attr =
     Exn ''AttributeError'' (squote (py_type_name v) @ '' object has no attribute '' @ squote attr)"

subsection \<open>Dictionary access\<close>

text \<open>\<open>v.get(k, dflt)\<close>: the value under \<open>k\<close>, or \<open>dflt\<close>; an \<open>AttributeError\<close> unless \<open>v\<close> is a dict.\<close>

fun py_get :: "pyval \<Rightarrow> string \<Rightarrow> pyval \<Rightarrow> exn + pyval" where
  "py_get (PDict kvs) k dflt = Inr (case map_of kvs k of None \<Rightarrow> dflt | Some v \<Rightarrow> v)"
| "py_get v k dflt = Inl (AttributeError v ''get'')"

text \<open>
  \<open>data[k]\<close>. The source applies it to a value on which \<open>.get\<close> has already
  succeeded, so to a dict; the second equation is never reached from the tool.
\<close>

fun py_getitem :: "pyval \<Rightarrow> string \<Rightarrow> exn + pyval" where
  "py_getitem (PDict kvs) k = (case map_of kvs k of None \<Rightarrow> Inl (KeyError k) | Some v \<Rightarrow> Inr v)"
| "py_getitem v k = Inl (Exn ''TypeError'' (squote (py_type_name v) @ '' object is not subscriptable''))"

subsection \<open>Formatting values into an f-string\<close>

text \<open>
  An f-string field \<open>{v}\<close> inserts \<open>str(v)\<close>: the string itself for a \<open>str\<close>, and \<open>repr(v)\<close>
  for the other JSON values. The \<open>repr\<close> of a float (shortest round-trip decimal) and of a
  string (quote choice and escapes over Unicode) are Python built-ins the module does not
  define; they are parameters of the model, and so is the \<open>+\<close> of two floats (binary64
  addition, rounded to nearest).
\<close>

record py_builtins =
  repr_float :: "64 word \<Rightarrow> string"
  repr_str :: "string \<Rightarrow> string"
  float_add :: "64 word \<Rightarrow> 64 word \<Rightarrow> 64 word"

definition digit_char :: "nat \<Rightarrow> char" where
  "digit_char n = ''0123456789'' ! n"

fun str_nat :: "nat \<Rightarrow> string" where
  "str_nat n = (if n < 10 then [digit_char n] else str_nat (n div 10) @ [digit_char (n mod 10)])"

definition str_int :: "int \<Rightarrow> string" where
  "str_int i = (if i < 0 then CHR ''-'' # str_nat (nat (- i)) else str_nat (nat i))"

fun join :: "string \<Rightarrow> string list \<Rightarrow> string" where
  "join sep [] = []"
| "join sep [x] = x"
| "join sep (x # y # ys) = x @ sep @ join sep (y # ys)"

fun py_repr :: "py_builtins \<Rightarrow> pyval \<Rightarrow> string" where
  "py_repr B PNone = ''None''"
| "py_repr B (PBool b) = (if b then ''True'' else ''False'')"
| "py_repr B (PInt i) = str_int i"
| "py_repr B (PFloat w) = repr_float B w"
| "py_repr B (PStr s) = repr_str B s"
| "py_repr B (PList xs) = ''['' @ join '', '' (map (py_repr B) xs) @ '']''"
| "py_repr B (PDict kvs) =
     ''{'' @ join '', '' (map (\<lambda>(k, v). repr_str B k @ '': '' @ py_repr B v) kvs) @ ''}''"

fun py_format :: "py_builtins \<Rightarrow> pyval \<Rightarrow> string" where
  "py_format B (PStr s) = s"
| "py_format B v = py_repr B v"

subsection \<open>The HTTP exchange\<close>

text \<open>
  What \<open>session.post\<close> is given, and what comes back. Issuing the request either raises
  (connection refused, timeout) or yields a response; on the response, \<open>await resp.text()\<close>
  and \<open>await resp.json()\<close> each either raise or return. The upstream service is a function
  from the request to that outcome. The timeout is in seconds.
\<close>

record http_request =
  http_method :: string
  url :: string
  json :: pyval
  timeout :: int

record http_response =
  status :: int
  resp_text :: "exn + string"
  resp_json :: "exn + pyval"

type_synonym upstream = "http_request \<Rightarrow> exn + http_response"

text \<open>
  The effect of the program on the network is the list of exchanges that have taken place:
  each request that went out, with what the upstream made of it. \<open>session.post\<close> is the
  only operation that adds to it: it hands the request to the upstream, records the exchange
  and gives the outcome back.
\<close>

type_synonym exchange = "http_request \<times> (exn + http_response)"

definition session_post ::
  "upstream \<Rightarrow> http_request \<Rightarrow> exchange list \<Rightarrow> (exn + http_response) \<times> exchange list" where
  "session_post post req exchanges =
     (let outcome = post req in (outcome, exchanges @ [(req, outcome)]))"

subsection \<open>Tool: add\_numbers\<close>

text \<open>
  Both arguments are floats (the schema turns an integer argument into one); each f-string
  field of a float inserts its \<open>repr\<close>.
\<close>

definition add_numbers :: "py_builtins \<Rightarrow> 64 word \<Rightarrow> 64 word \<Rightarrow> TextContent list" where
  "add_numbers B number1 number2 =
     (let result = float_add B number1 number2
      in [TextContent ''text''
            (''The sum of '' @ repr_float B number1 @ '' and '' @ repr_float B number2 @
             '' is '' @ repr_float B result)])"

subsection \<open>Tool: generate\_meme\<close>

definition meme_request :: "string \<Rightarrow> int \<Rightarrow> http_request" where
  "meme_request topic article_index =
     \<lparr>http_method = ''POST'',
      url = ''https://memegen-lb2x.onrender.com/puch_generate_meme'',
      json = PDict [(''topic'', PStr topic), (''articleIndex'', PInt article_index)],
      timeout = 60\<rparr>"

text \<open>The text of the success branch, one f-string piece per line of the source.\<close>

definition meme_text :: "string \<Rightarrow> string \<Rightarrow> string \<Rightarrow> string \<Rightarrow> string \<Rightarrow> string \<Rightarrow> string" where
  "meme_text topic title description top_text bottom_text meme_url =
     ''**Meme Generated!**\<newline>Topic: '' @ topic @ ''\<newline>\<newline>'' @
     ''Article: '' @ title @ ''\<newline>'' @
     ''Description: '' @ description @ ''\<newline>'' @
     ''Caption: '' @ top_text @ '' / '' @ bottom_text @ ''\<newline>'' @
     ''Meme URL: '' @ meme_url"

text \<open>
  The body of the inner \<open>async with\<close>: everything done with the response. An \<open>Inl\<close> is an
  exception on its way to the handler. The pieces of the final f-string are evaluated left
  to right, so a failing \<open>article.get\<close> comes before a failing \<open>caption.get\<close>.
\<close>

definition with_response :: "py_builtins \<Rightarrow> string \<Rightarrow> http_response \<Rightarrow> exn + TextContent list" where
  "with_response B topic resp =
     (if status resp \<noteq> 200 then
        (case resp_text resp of
           Inl e \<Rightarrow> Inl e
         | Inr error_text \<Rightarrow> Inr [TextContent ''text'' (''API request failed: '' @ error_text)])
      else
        (case resp_json resp of
           Inl e \<Rightarrow> Inl e
         | Inr data \<Rightarrow>
        (case py_get data ''success'' PNone of
           Inl e \<Rightarrow> Inl e
         | Inr success \<Rightarrow>
        if \<not> py_truthy success then
          (case py_get data ''error'' (PStr ''Unknown error'') of
             Inl e \<Rightarrow> Inl e
           | Inr err \<Rightarrow> Inr [TextContent ''text'' (''Error: '' @ py_format B err)])
        else
        (case py_getitem data ''memeUrl'' of
           Inl e \<Rightarrow> Inl e
         | Inr meme_url \<Rightarrow>
        (case py_get data ''article'' (PDict []) of
           Inl e \<Rightarrow> Inl e
         | Inr article \<Rightarrow>
        (case py_get data ''caption'' (PDict []) of
           Inl e \<Rightarrow> Inl e
         | Inr caption \<Rightarrow>
        (case py_get article ''title'' PNone of
           Inl e \<Rightarrow> Inl e
         | Inr title \<Rightarrow>
        (case py_get article ''description'' PNone of
           Inl e \<Rightarrow> Inl e
         | Inr description \<Rightarrow>
        (case py_get caption ''topText'' (PStr []) of
           Inl e \<Rightarrow> Inl e
         | Inr top_text \<Rightarrow>
        (case py_get caption ''bottomText'' (PStr []) of
           Inl e \<Rightarrow> Inl e
         | Inr bottom_text \<Rightarrow>
           Inr [TextContent ''text''
                  (meme_text topic (py_format B title) (py_format B description)
                     (py_format B top_text) (py_format B bottom_text)
                     (py_format B meme_url))]))))))))))"

text \<open>
  The tool, passing the exchanges along. \<open>article_index\<close> is \<open>None\<close> when the caller
  leaves it out, and then takes the default of the signature. The result is the exchanges
  after the call and the value returned; the \<open>except\<close> clause turns a raised exception into
  text.
\<close>

definition generate_meme_st ::
  "py_builtins \<Rightarrow> upstream \<Rightarrow> string \<Rightarrow> int option \<Rightarrow> exchange list
     \<Rightarrow> exchange list \<times> TextContent list" where
  "generate_meme_st B post topic article_index_arg exchanges =
     (let article_index = (case article_index_arg of None \<Rightarrow> 0 | Some i \<Rightarrow> i);
          (posted, exchanges') = session_post post (meme_request topic article_index) exchanges;
          outcome = (case posted of
                       Inl e \<Rightarrow> Inl e
                     | Inr resp \<Rightarrow> with_response B topic resp)
      in (exchanges',
          case outcome of
            Inl e \<Rightarrow> [TextContent ''text'' (''Exception occurred: '' @ exn_str e)]
          | Inr result \<Rightarrow> result))"

text \<open>One invocation on its own: the exchanges it makes, and the value it returns.\<close>

definition generate_meme ::
  "py_builtins \<Rightarrow> upstream \<Rightarrow> string \<Rightarrow> int option \<Rightarrow> exchange list \<times> TextContent list" where
  "generate_meme B post topic article_index_arg =
     generate_meme_st B post topic article_index_arg []"

subsection \<open>Serving the tools\<close>

datatype tool_call =
    Validate
  | AddNumbers "64 word" "64 word"
  | GenerateMeme string "int option"

datatype tool_value = StrValue string | ContentValue "TextContent list"

datatype tool_reply = Unauthorized | InvalidArguments | ToolResult tool_value

text \<open>
  Modelled from the spec: the dispatch of a tool call by the FastMCP server, which is a
  library and not part of the module. The spec has the gate validate the presented
  credential before allowing any tool invocation, a mismatch being denied by the gate and
  never reaching a tool body, and has input outside a tool's schema rejected by the schema
  layer. The gate asks the provider's \<open>load_access_token\<close>; the one schema constraint
  beyond the argument types is \<open>ge=0\<close> on \<open>article_index\<close>. A call that is denied or
  rejected leaves the exchanges as they were.
\<close>

definition call_tool ::
  "SimpleBearerAuthProvider \<Rightarrow> py_builtins \<Rightarrow> upstream \<Rightarrow> string \<Rightarrow> tool_call \<Rightarrow> exchange list
     \<Rightarrow> exchange list \<times> tool_reply" where
  "call_tool auth B post tok call exchanges =
     (case load_access_token auth tok of
        None \<Rightarrow> (exchanges, Unauthorized)
      | Some access_token \<Rightarrow>
          (case call of
             Validate \<Rightarrow> (exchanges, ToolResult (StrValue validate))
           | AddNumbers number1 number2 \<Rightarrow>
               (exchanges, ToolResult (ContentValue (add_numbers B number1 number2)))
           | GenerateMeme topic article_index \<Rightarrow>
               (if (case article_index of None \<Rightarrow> False | Some i \<Rightarrow> i < 0)
                then (exchanges, InvalidArguments)
                else (let (exchanges', result) = generate_meme_st B post topic article_index exchanges
                      in (exchanges', ToolResult (ContentValue result))))))"

text \<open>The server of the module: \<open>FastMCP(..., auth=SimpleBearerAuthProvider(TOKEN))\<close>.\<close>

definition mcp_call_tool ::
  "py_builtins \<Rightarrow> upstream \<Rightarrow> string \<Rightarrow> tool_call \<Rightarrow> exchange list \<Rightarrow> exchange list \<times> tool_reply" where
  "mcp_call_tool = call_tool mcp_auth"

subsection \<open>A mocked upstream\<close>

text \<open>
  For the examples: an upstream that answers every request with the same outcome, and
  stand-ins for the built-ins (the \<open>repr\<close> for strings is Python's on a string of letters
  and digits; the other two are placeholders, which no example evaluates).
\<close>

definition mock_upstream :: "exn + http_response \<Rightarrow> upstream" where
  "mock_upstream outcome req = outcome"

definition mock_builtins :: py_builtins where
  "mock_builtins = \<lparr>repr_float = (\<lambda>w. ''0.0''), repr_str = squote, float_add = (\<lambda>a b. a)\<rparr>"

section \<open>Properties\<close>

subsection \<open>Contiguous sublists of a concatenation\<close>

lemma sublist_skip: "sublist xs zs \<Longrightarrow> sublist xs (ys @ zs)"
proof -
  assume "sublist xs zs"
  then obtain ps ss where "zs = ps @ xs @ ss" by (auto simp: sublist_def)
  then have "ys @ zs = (ys @ ps) @ xs @ ss" by simp
  then show ?thesis unfolding sublist_def by blast
qed

lemma sublist_self: "sublist xs (xs :: 'a list)"
  using sublist_append_rightI [of xs "[]"] by simp


subsection \<open>The validate tool\<close>

text \<open>
  Claim C9. The server registers three tools, \<open>validate\<close> among them; \<open>validate\<close> takes no
  argument and returns the hardcoded string 919818039142.
\<close>

theorem validate_returns_my_number:
  "validate = ''919818039142'' \<and> mcp_tools = [''validate'', ''add_numbers'', ''generate_meme'']"
  by (simp add: validate_def MY_NUMBER_def mcp_tools_def)

subsection \<open>The add\_numbers tool\<close>

text \<open>
  Claim C7. For every pair of floats, \<open>add_numbers\<close> returns the one sentence
  \<open>The sum of a and b is s\<close>, where \<open>s\<close> is the text of the float sum of the two; so the
  text contains exactly that value. Float addition and the text of a float are the
  built-ins of the language, whatever they are.
\<close>

theorem add_numbers_contains_sum:
  "\<exists>t. add_numbers B number1 number2 = [TextContent ''text'' t]
     \<and> t = ''The sum of '' @ repr_float B number1 @ '' and '' @ repr_float B number2 @
           '' is '' @ repr_float B (float_add B number1 number2)
     \<and> sublist (repr_float B (float_add B number1 number2)) t"
proof -
  have "sublist (repr_float B (float_add B number1 number2))
          (''The sum of '' @ repr_float B number1 @ '' and '' @ repr_float B number2 @
           '' is '' @ repr_float B (float_add B number1 number2))"
    by ((rule sublist_self | rule sublist_skip)+)
  then show ?thesis
    by (simp add: add_numbers_def Let_def)
qed

subsection \<open>The access gate\<close>

text \<open>
  Claim C3. For every presented token, \<open>load_access_token\<close> returns the principal
  descriptor (the token, client \<open>math-client\<close>, scope \<open>*\<close>, no expiry) exactly when the token
  equals the provider's secret, and \<open>None\<close> exactly when it differs. A tool call that
  presents a token other than the secret is answered \<open>Unauthorized\<close> whatever the tool, its
  arguments and the upstream, and makes no exchange: no tool logic runs. A call is answered
  \<open>Unauthorized\<close> only then. On the server of the module the secret is \<open>auth_token\<close>.
\<close>

theorem access_gate_iff:
  "((load_access_token self tok =
       Some \<lparr>token = tok, client_id = ''math-client'', scopes = [''*''], expires_at = None\<rparr>)
      = (tok = self_token self))
   \<and> ((load_access_token self tok = None) = (tok \<noteq> self_token self))
   \<and> (tok \<noteq> self_token self \<longrightarrow>
        call_tool self B post tok call exchanges = (exchanges, Unauthorized))
   \<and> ((snd (call_tool self B post tok call exchanges) = Unauthorized) = (tok \<noteq> self_token self))
   \<and> (tok \<noteq> ''auth_token'' \<longrightarrow>
        mcp_call_tool B post tok call exchanges = (exchanges, Unauthorized))"
proof -
  have allowed: "snd (call_tool self B post (self_token self) call exchanges) \<noteq> Unauthorized"
    by (cases call) (simp_all add: call_tool_def load_access_token_def split: prod.splits)
  have denied: "call_tool a B post tok call exchanges = (exchanges, Unauthorized)"
    if "tok \<noteq> self_token a" for a
    using that by (simp add: call_tool_def load_access_token_def)
  have "self_token mcp_auth = ''auth_token''"
    by (simp add: mcp_auth_def TOKEN_def)
  with denied [of mcp_auth] have "tok \<noteq> ''auth_token'' \<longrightarrow>
      mcp_call_tool B post tok call exchanges = (exchanges, Unauthorized)"
    by (simp add: mcp_call_tool_def)
  moreover have "(snd (call_tool self B post tok call exchanges) = Unauthorized)
      = (tok \<noteq> self_token self)"
    using allowed denied [of self] by (cases "tok = self_token self") simp_all
  ultimately show ?thesis
    using denied [of self] by (simp add: load_access_token_def)
qed

text \<open>
  On the server of the module: the secret passes and a near miss does not; with the near
  miss neither \<open>generate_meme\<close> nor \<open>validate\<close> runs, with the secret \<open>validate\<close> does.
\<close>

theorem access_gate_iff_witness:
  "load_access_token mcp_auth ''auth_token'' =
       Some \<lparr>token = ''auth_token'', client_id = ''math-client'', scopes = [''*''], expires_at = None\<rparr>
   \<and> load_access_token mcp_auth ''auth_tokem'' = None
   \<and> call_tool mcp_auth mock_builtins (mock_upstream (Inl (Exn ''TimeoutError'' []))) ''auth_tokem''
        (GenerateMeme ''cats'' None) [] = ([], Unauthorized)
   \<and> mcp_call_tool mock_builtins (mock_upstream (Inl (Exn ''TimeoutError'' []))) ''auth_tokem''
        Validate [] = ([], Unauthorized)
   \<and> snd (call_tool mcp_auth mock_builtins (mock_upstream (Inl (Exn ''TimeoutError'' []))) ''auth_token''
        Validate []) \<noteq> Unauthorized"
  using access_gate_iff [where self = mcp_auth and tok = "''auth_token''" and B = mock_builtins
          and post = "mock_upstream (Inl (Exn ''TimeoutError'' []))" and call = Validate
          and exchanges = "[]"]
        access_gate_iff [where self = mcp_auth and tok = "''auth_tokem''" and B = mock_builtins
          and post = "mock_upstream (Inl (Exn ''TimeoutError'' []))"
          and call = "GenerateMeme ''cats'' None" and exchanges = "[]"]
        access_gate_iff [where self = mcp_auth and tok = "''auth_tokem''" and B = mock_builtins
          and post = "mock_upstream (Inl (Exn ''TimeoutError'' []))" and call = Validate
          and exchanges = "[]"]
  by (simp add: mcp_auth_def TOKEN_def)

subsection \<open>The request generate\_meme issues\<close>

text \<open>
  Claim C8. The request of an invocation with topic \<open>t\<close> and article index \<open>i\<close> is a POST
  to the fixed URL with JSON body \<open>{topic: t, articleIndex: i}\<close> and a timeout of 60
  seconds. Whatever exchanges came before and whatever the upstream answers, an invocation
  with an index \<open>i\<close> that is not negative adds exactly one exchange, that request handed to
  the upstream; without an index the request carries 0. A failing upstream is not asked
  again.
\<close>

theorem generate_meme_one_post:
  "meme_request topic i =
     \<lparr>http_method = ''POST'',
      url = ''https://memegen-lb2x.onrender.com/puch_generate_meme'',
      json = PDict [(''topic'', PStr topic), (''articleIndex'', PInt i)],
      timeout = 60\<rparr>
   \<and> (0 \<le> i \<longrightarrow>
        fst (generate_meme_st B post topic (Some i) exchanges) =
          exchanges @ [(meme_request topic i, post (meme_request topic i))])
   \<and> fst (generate_meme_st B post topic None exchanges) =
          exchanges @ [(meme_request topic 0, post (meme_request topic 0))]
   \<and> (0 \<le> i \<longrightarrow>
        fst (generate_meme B post topic (Some i)) =
          [(meme_request topic i, post (meme_request topic i))])
   \<and> fst (generate_meme B post topic None) =
          [(meme_request topic 0, post (meme_request topic 0))]"
  by (simp add: generate_meme_def generate_meme_st_def session_post_def meme_request_def Let_def)

text \<open>An upstream that times out, asked once, with index 2.\<close>

theorem generate_meme_one_post_witness:
  "(0::int) \<le> 2
   \<and> fst (generate_meme mock_builtins (mock_upstream (Inl (Exn ''TimeoutError'' []))) ''cats'' (Some 2)) =
       [(\<lparr>http_method = ''POST'',
          url = ''https://memegen-lb2x.onrender.com/puch_generate_meme'',
          json = PDict [(''topic'', PStr ''cats''), (''articleIndex'', PInt 2)],
          timeout = 60\<rparr>,
         Inl (Exn ''TimeoutError'' []))]
   \<and> length (fst (generate_meme_st mock_builtins (mock_upstream (Inl (Exn ''TimeoutError'' [])))
        ''cats'' (Some 2) [])) = 1"
  using generate_meme_one_post [where topic = "''cats''" and i = 2 and B = mock_builtins
          and post = "mock_upstream (Inl (Exn ''TimeoutError'' []))" and exchanges = "[]"]
  by (simp add: mock_upstream_def)

subsection \<open>The shape of every result\<close>

lemma with_response_shape:
  "with_response B topic resp = Inr r \<Longrightarrow> \<exists>t. r = [TextContent ''text'' t]"
  unfolding with_response_def
  by (auto split: if_splits sum.splits)

text \<open>
  Claim C10. On every path (HTTP failure, logical failure, exception, success)
  \<open>generate_meme\<close> returns a list of exactly one \<open>TextContent\<close> whose type is \<open>text\<close>.
\<close>

theorem generate_meme_single_text:
  "\<exists>t. snd (generate_meme B post topic ai) = [TextContent ''text'' t]"
proof (cases "case post (meme_request topic (case ai of None \<Rightarrow> 0 | Some i \<Rightarrow> i)) of
                Inl e \<Rightarrow> Inl e | Inr resp \<Rightarrow> with_response B topic resp")
  case (Inl e)
  then show ?thesis by (simp add: generate_meme_def generate_meme_st_def session_post_def Let_def)
next
  case (Inr r)
  then obtain t where "r = [TextContent ''text'' t]"
    by (auto split: sum.splits dest: with_response_shape)
  with Inr show ?thesis by (simp add: generate_meme_def generate_meme_st_def session_post_def Let_def)
qed

subsection \<open>What the tool returns, by outcome of the exchange\<close>

text \<open>The value returned, with the request log dropped and the \<open>let\<close>s unfolded.\<close>

lemma generate_meme_result:
  "snd (generate_meme B post topic ai) =
     (case (case post (meme_request topic (case ai of None \<Rightarrow> 0 | Some i \<Rightarrow> i)) of
              Inl e \<Rightarrow> Inl e | Inr resp \<Rightarrow> with_response B topic resp) of
        Inl e \<Rightarrow> [TextContent ''text'' (''Exception occurred: '' @ exn_str e)]
      | Inr result \<Rightarrow> result)"
  by (simp add: generate_meme_def generate_meme_st_def session_post_def Let_def)

text \<open>
  Claim C2. When the HTTP call raises, when reading the body of a non-200 response raises,
  when parsing the body of a 200 response raises, and more generally when anything done
  with the response raises, \<open>generate_meme\<close> returns the one text
  \<open>Exception occurred: \<close> followed by \<open>str(e)\<close>; nothing propagates.
\<close>

theorem generate_meme_catches:
  "(post (meme_request topic (case ai of None \<Rightarrow> 0 | Some i \<Rightarrow> i)) = Inl e \<longrightarrow>
      snd (generate_meme B post topic ai) =
        [TextContent ''text'' (''Exception occurred: '' @ exn_str e)])
   \<and> (post (meme_request topic (case ai of None \<Rightarrow> 0 | Some i \<Rightarrow> i)) = Inr resp \<and>
        status resp \<noteq> 200 \<and> resp_text resp = Inl e \<longrightarrow>
      snd (generate_meme B post topic ai) =
        [TextContent ''text'' (''Exception occurred: '' @ exn_str e)])
   \<and> (post (meme_request topic (case ai of None \<Rightarrow> 0 | Some i \<Rightarrow> i)) = Inr resp \<and>
        status resp = 200 \<and> resp_json resp = Inl e \<longrightarrow>
      snd (generate_meme B post topic ai) =
        [TextContent ''text'' (''Exception occurred: '' @ exn_str e)])
   \<and> (post (meme_request topic (case ai of None \<Rightarrow> 0 | Some i \<Rightarrow> i)) = Inr resp \<and>
        with_response B topic resp = Inl e \<longrightarrow>
      snd (generate_meme B post topic ai) =
        [TextContent ''text'' (''Exception occurred: '' @ exn_str e)])"
  by (simp add: generate_meme_result with_response_def)

text \<open>
  A timeout (whose \<open>str\<close> is empty), a body that breaks off on a 502, a 200 whose body is
  not JSON, and a 200 whose JSON is a list, on which \<open>.get\<close> fails.
\<close>

theorem generate_meme_catches_witness:
  "snd (generate_meme mock_builtins (mock_upstream (Inl (Exn ''TimeoutError'' []))) ''cats'' None) =
     [TextContent ''text'' ''Exception occurred: '']
   \<and> snd (generate_meme mock_builtins
        (mock_upstream (Inr \<lparr>status = 502, resp_text = Inl (Exn ''ClientPayloadError'' ''Response payload is not completed''),
                              resp_json = Inl (Exn ''ClientPayloadError'' ''Response payload is not completed'')\<rparr>))
        ''cats'' (Some 2)) =
     [TextContent ''text'' ''Exception occurred: Response payload is not completed'']
   \<and> snd (generate_meme mock_builtins
        (mock_upstream (Inr \<lparr>status = 200, resp_text = Inr ''<html>'',
                              resp_json = Inl (Exn ''JSONDecodeError'' ''Expecting value: line 1 column 1 (char 0)'')\<rparr>))
        ''cats'' None) =
     [TextContent ''text'' ''Exception occurred: Expecting value: line 1 column 1 (char 0)'']
   \<and> snd (generate_meme mock_builtins
        (mock_upstream (Inr \<lparr>status = 200, resp_text = Inr ''[]'', resp_json = Inr (PList [])\<rparr>))
        ''cats'' None) =
     [TextContent ''text'' (''Exception occurred: '' @ squote ''list'' @ '' object has no attribute '' @ squote ''get'')]"
  using
    generate_meme_catches [where post = "mock_upstream (Inl (Exn ''TimeoutError'' []))"
      and e = "Exn ''TimeoutError'' []" and topic = "''cats''" and ai = None and B = mock_builtins]
    generate_meme_catches [where post = "mock_upstream (Inr \<lparr>status = 502, resp_text = Inl (Exn ''ClientPayloadError'' ''Response payload is not completed''),
                              resp_json = Inl (Exn ''ClientPayloadError'' ''Response payload is not completed'')\<rparr>)"
      and resp = "\<lparr>status = 502, resp_text = Inl (Exn ''ClientPayloadError'' ''Response payload is not completed''),
                              resp_json = Inl (Exn ''ClientPayloadError'' ''Response payload is not completed'')\<rparr>"
      and e = "Exn ''ClientPayloadError'' ''Response payload is not completed''" and topic = "''cats''" and ai = "Some 2" and B = mock_builtins]
    generate_meme_catches [where post = "mock_upstream (Inr \<lparr>status = 200, resp_text = Inr ''<html>'',
                              resp_json = Inl (Exn ''JSONDecodeError'' ''Expecting value: line 1 column 1 (char 0)'')\<rparr>)"
      and resp = "\<lparr>status = 200, resp_text = Inr ''<html>'',
                              resp_json = Inl (Exn ''JSONDecodeError'' ''Expecting value: line 1 column 1 (char 0)'')\<rparr>"
      and e = "Exn ''JSONDecodeError'' ''Expecting value: line 1 column 1 (char 0)''" and topic = "''cats''" and ai = None and B = mock_builtins]
    generate_meme_catches [where post = "mock_upstream (Inr \<lparr>status = 200, resp_text = Inr ''[]'', resp_json = Inr (PList [])\<rparr>)"
      and resp = "\<lparr>status = 200, resp_text = Inr ''[]'', resp_json = Inr (PList [])\<rparr>"
      and e = "AttributeError (PList []) ''get''" and topic = "''cats''" and ai = None and B = mock_builtins]
  by (simp add: mock_upstream_def with_response_def AttributeError_def)

text \<open>
  Claim C4. For a response whose status is not 200 and whose body reads as \<open>body\<close>, the
  result is the one text \<open>API request failed: \<close> followed by \<open>body\<close>, so the body is
  contained in it.
\<close>

theorem generate_meme_http_failure:
  assumes "post (meme_request topic (case ai of None \<Rightarrow> 0 | Some i \<Rightarrow> i)) = Inr resp"
    and "status resp \<noteq> 200"
    and "resp_text resp = Inr body"
  shows "\<exists>t. snd (generate_meme B post topic ai) = [TextContent ''text'' t]
           \<and> t = ''API request failed: '' @ body \<and> sublist body t"
proof -
  have "snd (generate_meme B post topic ai) = [TextContent ''text'' (''API request failed: '' @ body)]"
    using assms by (simp add: generate_meme_result with_response_def)
  moreover have "sublist body (''API request failed: '' @ body)"
    by (rule sublist_append_leftI)
  ultimately show ?thesis by blast
qed

text \<open>A status 500 with body \<open>Internal Server Error\<close>.\<close>

theorem generate_meme_http_failure_witness:
  "\<exists>t. snd (generate_meme mock_builtins
        (mock_upstream (Inr \<lparr>status = 500, resp_text = Inr ''Internal Server Error'',
                              resp_json = Inl (Exn ''ContentTypeError'' ''unexpected mimetype'')\<rparr>))
        ''cats'' None) = [TextContent ''text'' t]
     \<and> t = ''API request failed: Internal Server Error'' \<and> sublist ''Internal Server Error'' t"
  using generate_meme_http_failure [where post = "mock_upstream (Inr \<lparr>status = 500, resp_text = Inr ''Internal Server Error'',
                              resp_json = Inl (Exn ''ContentTypeError'' ''unexpected mimetype'')\<rparr>)"
     and resp = "\<lparr>status = 500, resp_text = Inr ''Internal Server Error'',
                              resp_json = Inl (Exn ''ContentTypeError'' ''unexpected mimetype'')\<rparr>"
     and body = "''Internal Server Error''" and topic = "''cats''" and ai = None and B = mock_builtins]
  by (simp add: mock_upstream_def)

text \<open>
  Claim C5. For a status-200 response whose JSON is an object with a falsy (or missing)
  \<open>success\<close>, the result is the one text \<open>Error: \<close> followed by the \<open>error\<close> field as
  \<open>str\<close> gives it (a string verbatim, so contained in the text), or by
  \<open>Unknown error\<close> when there is no \<open>error\<close> field.
\<close>

theorem generate_meme_logical_failure:
  assumes "post (meme_request topic (case ai of None \<Rightarrow> 0 | Some i \<Rightarrow> i)) = Inr resp"
    and "status resp = 200"
    and "resp_json resp = Inr (PDict data)"
    and "\<not> py_truthy (case map_of data ''success'' of None \<Rightarrow> PNone | Some v \<Rightarrow> v)"
  shows "\<exists>t. snd (generate_meme B post topic ai) = [TextContent ''text'' t]
           \<and> (case map_of data ''error'' of
                 None \<Rightarrow> t = ''Error: Unknown error''
               | Some (PStr m) \<Rightarrow> t = ''Error: '' @ m \<and> sublist m t
               | Some v \<Rightarrow> t = ''Error: '' @ py_repr B v)"
proof -
  have r: "snd (generate_meme B post topic ai) =
      [TextContent ''text'' (''Error: '' @
         py_format B (case map_of data ''error'' of None \<Rightarrow> PStr ''Unknown error'' | Some v \<Rightarrow> v))]"
    using assms by (simp add: generate_meme_result with_response_def)
  have s: "sublist m (''Error: '' @ m)" for m :: string
    by (rule sublist_append_leftI)
  show ?thesis
    unfolding r using s
    by (auto simp del: append.simps split: option.splits pyval.splits)
qed

text \<open>The body \<open>{success: false, error: "no articles found"}\<close>.\<close>

theorem generate_meme_logical_failure_witness:
  "\<exists>t. snd (generate_meme mock_builtins
        (mock_upstream (Inr \<lparr>status = 200, resp_text = Inr ''{success: false, error: no articles found}'',
           resp_json = Inr (PDict [(''success'', PBool False), (''error'', PStr ''no articles found'')])\<rparr>))
        ''cats'' None) = [TextContent ''text'' t]
     \<and> t = ''Error: no articles found'' \<and> sublist ''no articles found'' t"
  using generate_meme_logical_failure [where post = "mock_upstream (Inr \<lparr>status = 200, resp_text = Inr ''{success: false, error: no articles found}'',
           resp_json = Inr (PDict [(''success'', PBool False), (''error'', PStr ''no articles found'')])\<rparr>)"
     and resp = "\<lparr>status = 200, resp_text = Inr ''{success: false, error: no articles found}'',
           resp_json = Inr (PDict [(''success'', PBool False), (''error'', PStr ''no articles found'')])\<rparr>"
     and data = "[(''success'', PBool False), (''error'', PStr ''no articles found'')]"
     and topic = "''cats''" and ai = None and B = mock_builtins]
  by (simp add: mock_upstream_def)

subsection \<open>The success branch\<close>

text \<open>Every piece inserted into the success text occurs in it as a contiguous run.\<close>

lemma sublist_meme_text:
  "sublist topic (meme_text topic title description top_text bottom_text meme_url)"
  "sublist title (meme_text topic title description top_text bottom_text meme_url)"
  "sublist description (meme_text topic title description top_text bottom_text meme_url)"
  "sublist top_text (meme_text topic title description top_text bottom_text meme_url)"
  "sublist bottom_text (meme_text topic title description top_text bottom_text meme_url)"
  "sublist meme_url (meme_text topic title description top_text bottom_text meme_url)"
  unfolding meme_text_def
  by ((rule sublist_append_rightI | rule sublist_self | rule sublist_skip)+)+

text \<open>
  Claim C6. For a status-200 response whose JSON object has \<open>success: true\<close>,
  \<open>memeUrl: U\<close>, \<open>article: {title: T, description: D}\<close> and
  \<open>caption: {topText: X, bottomText: Y}\<close>, the result is the one text of the success
  branch, and it contains \<open>U\<close>, \<open>T\<close>, \<open>D\<close>, \<open>X\<close>, \<open>Y\<close> and the topic verbatim.
\<close>

theorem generate_meme_success_example:
  assumes "post (meme_request topic (case ai of None \<Rightarrow> 0 | Some i \<Rightarrow> i)) = Inr resp"
    and "status resp = 200"
    and "resp_json resp = Inr (PDict data)"
    and "map_of data ''success'' = Some (PBool True)"
    and "map_of data ''memeUrl'' = Some (PStr U)"
    and "map_of data ''article'' = Some (PDict article)"
    and "map_of article ''title'' = Some (PStr T)"
    and "map_of article ''description'' = Some (PStr D)"
    and "map_of data ''caption'' = Some (PDict caption)"
    and "map_of caption ''topText'' = Some (PStr X)"
    and "map_of caption ''bottomText'' = Some (PStr Y)"
  shows "\<exists>t. snd (generate_meme B post topic ai) = [TextContent ''text'' t]
           \<and> t = meme_text topic T D X Y U
           \<and> sublist U t \<and> sublist T t \<and> sublist D t \<and> sublist X t \<and> sublist Y t
           \<and> sublist topic t"
proof -
  have "snd (generate_meme B post topic ai) = [TextContent ''text'' (meme_text topic T D X Y U)]"
    using assms by (simp add: generate_meme_result with_response_def)
  then show ?thesis
    by (simp add: sublist_meme_text)
qed

text \<open>The body of the claim, with the topic \<open>cats\<close>.\<close>

theorem generate_meme_success_example_witness:
  "\<exists>t. snd (generate_meme mock_builtins
        (mock_upstream (Inr \<lparr>status = 200, resp_text = Inr [],
           resp_json = Inr (PDict [(''success'', PBool True), (''memeUrl'', PStr ''U''),
              (''article'', PDict [(''title'', PStr ''T''), (''description'', PStr ''D'')]),
              (''caption'', PDict [(''topText'', PStr ''X''), (''bottomText'', PStr ''Y'')])])\<rparr>))
        ''cats'' None) = [TextContent ''text'' t]
     \<and> t = ''**Meme Generated!**\<newline>Topic: cats\<newline>\<newline>Article: T\<newline>Description: D\<newline>Caption: X / Y\<newline>Meme URL: U''
     \<and> sublist ''U'' t \<and> sublist ''T'' t \<and> sublist ''D'' t \<and> sublist ''X'' t \<and> sublist ''Y'' t
     \<and> sublist ''cats'' t"
  using generate_meme_success_example [where post = "mock_upstream (Inr \<lparr>status = 200, resp_text = Inr [],
           resp_json = Inr (PDict [(''success'', PBool True), (''memeUrl'', PStr ''U''),
              (''article'', PDict [(''title'', PStr ''T''), (''description'', PStr ''D'')]),
              (''caption'', PDict [(''topText'', PStr ''X''), (''bottomText'', PStr ''Y'')])])\<rparr>)"
     and resp = "\<lparr>status = 200, resp_text = Inr [],
           resp_json = Inr (PDict [(''success'', PBool True), (''memeUrl'', PStr ''U''),
              (''article'', PDict [(''title'', PStr ''T''), (''description'', PStr ''D'')]),
              (''caption'', PDict [(''topText'', PStr ''X''), (''bottomText'', PStr ''Y'')])])\<rparr>"
     and data = "[(''success'', PBool True), (''memeUrl'', PStr ''U''),
              (''article'', PDict [(''title'', PStr ''T''), (''description'', PStr ''D'')]),
              (''caption'', PDict [(''topText'', PStr ''X''), (''bottomText'', PStr ''Y'')])]"
     and article = "[(''title'', PStr ''T''), (''description'', PStr ''D'')]"
     and caption = "[(''topText'', PStr ''X''), (''bottomText'', PStr ''Y'')]"
     and U = "''U''" and T = "''T''" and D = "''D''" and X = "''X''" and Y = "''Y''"
     and topic = "''cats''" and ai = None and B = mock_builtins]
  by (simp add: mock_upstream_def meme_text_def)

text \<open>
  Claim C1, as amended. Take a status-200 response whose JSON object has a truthy
  \<open>success\<close>. Without a \<open>memeUrl\<close> key the subscript raises and the result is the text
  \<open>Exception occurred: 'memeUrl'\<close>: no block is produced. With a \<open>memeUrl\<close>, and with
  \<open>article\<close> and \<open>caption\<close> each either missing (then read as an empty object) or an
  object, the result is the formatted block, in which a missing \<open>title\<close> or
  \<open>description\<close> reads \<open>None\<close> and a missing \<open>topText\<close> or \<open>bottomText\<close> is empty.
\<close>

theorem generate_meme_success_block:
  assumes "post (meme_request topic (case ai of None \<Rightarrow> 0 | Some i \<Rightarrow> i)) = Inr resp"
    and "status resp = 200"
    and "resp_json resp = Inr (PDict data)"
    and "map_of data ''success'' = Some success"
    and "py_truthy success"
  shows "(map_of data ''memeUrl'' = None \<longrightarrow>
            snd (generate_meme B post topic ai) =
              [TextContent ''text'' (''Exception occurred: '' @ squote ''memeUrl'')])
       \<and> (map_of data ''memeUrl'' = Some meme_url
            \<and> (case map_of data ''article'' of None \<Rightarrow> PDict [] | Some v \<Rightarrow> v) = PDict article
            \<and> (case map_of data ''caption'' of None \<Rightarrow> PDict [] | Some v \<Rightarrow> v) = PDict caption \<longrightarrow>
            snd (generate_meme B post topic ai) =
              [TextContent ''text''
                 (meme_text topic
                    (case map_of article ''title'' of None \<Rightarrow> ''None'' | Some v \<Rightarrow> py_format B v)
                    (case map_of article ''description'' of None \<Rightarrow> ''None'' | Some v \<Rightarrow> py_format B v)
                    (case map_of caption ''topText'' of None \<Rightarrow> [] | Some v \<Rightarrow> py_format B v)
                    (case map_of caption ''bottomText'' of None \<Rightarrow> [] | Some v \<Rightarrow> py_format B v)
                    (py_format B meme_url))])"
proof (intro conjI impI)
  assume "map_of data ''memeUrl'' = None"
  with assms show "snd (generate_meme B post topic ai) =
      [TextContent ''text'' (''Exception occurred: '' @ squote ''memeUrl'')]"
    by (simp add: generate_meme_result with_response_def KeyError_def)
next
  assume h: "map_of data ''memeUrl'' = Some meme_url
            \<and> (case map_of data ''article'' of None \<Rightarrow> PDict [] | Some v \<Rightarrow> v) = PDict article
            \<and> (case map_of data ''caption'' of None \<Rightarrow> PDict [] | Some v \<Rightarrow> v) = PDict caption"
  have t: "py_format B (case map_of article k of None \<Rightarrow> PNone | Some v \<Rightarrow> v) =
      (case map_of article k of None \<Rightarrow> ''None'' | Some v \<Rightarrow> py_format B v)" for k
    by (simp split: option.splits)
  have c: "py_format B (case map_of caption k of None \<Rightarrow> PStr [] | Some v \<Rightarrow> v) =
      (case map_of caption k of None \<Rightarrow> [] | Some v \<Rightarrow> py_format B v)" for k
    by (simp split: option.splits)
  from assms h show "snd (generate_meme B post topic ai) =
              [TextContent ''text''
                 (meme_text topic
                    (case map_of article ''title'' of None \<Rightarrow> ''None'' | Some v \<Rightarrow> py_format B v)
                    (case map_of article ''description'' of None \<Rightarrow> ''None'' | Some v \<Rightarrow> py_format B v)
                    (case map_of caption ''topText'' of None \<Rightarrow> [] | Some v \<Rightarrow> py_format B v)
                    (case map_of caption ''bottomText'' of None \<Rightarrow> [] | Some v \<Rightarrow> py_format B v)
                    (py_format B meme_url))]"
    by (simp add: generate_meme_result with_response_def t c)
qed

text \<open>
  A body with \<open>success\<close> alone, and one with \<open>success: 1\<close>, a URL, a description and
  nothing else.
\<close>

theorem generate_meme_success_block_witness:
  "snd (generate_meme mock_builtins
        (mock_upstream (Inr \<lparr>status = 200, resp_text = Inr [],
           resp_json = Inr (PDict [(''success'', PBool True)])\<rparr>))
        ''cats'' None) = [TextContent ''text'' (''Exception occurred: '' @ squote ''memeUrl'')]
   \<and> snd (generate_meme mock_builtins
        (mock_upstream (Inr \<lparr>status = 200, resp_text = Inr [],
           resp_json = Inr (PDict [(''success'', PInt 1), (''memeUrl'', PStr ''U''),
              (''article'', PDict [(''description'', PStr ''D'')])])\<rparr>))
        ''cats'' (Some 3)) =
       [TextContent ''text''
          ''**Meme Generated!**\<newline>Topic: cats\<newline>\<newline>Article: None\<newline>Description: D\<newline>Caption:  / \<newline>Meme URL: U'']"
  using
    generate_meme_success_block [where post = "mock_upstream (Inr \<lparr>status = 200, resp_text = Inr [],
           resp_json = Inr (PDict [(''success'', PBool True)])\<rparr>)"
      and resp = "\<lparr>status = 200, resp_text = Inr [],
           resp_json = Inr (PDict [(''success'', PBool True)])\<rparr>"
      and data = "[(''success'', PBool True)]" and success = "PBool True"
      and topic = "''cats''" and ai = None and B = mock_builtins]
    generate_meme_success_block [where post = "mock_upstream (Inr \<lparr>status = 200, resp_text = Inr [],
           resp_json = Inr (PDict [(''success'', PInt 1), (''memeUrl'', PStr ''U''),
              (''article'', PDict [(''description'', PStr ''D'')])])\<rparr>)"
      and resp = "\<lparr>status = 200, resp_text = Inr [],
           resp_json = Inr (PDict [(''success'', PInt 1), (''memeUrl'', PStr ''U''),
              (''article'', PDict [(''description'', PStr ''D'')])])\<rparr>"
      and data = "[(''success'', PInt 1), (''memeUrl'', PStr ''U''),
              (''article'', PDict [(''description'', PStr ''D'')])]"
      and success = "PInt 1" and meme_url = "PStr ''U''"
      and article = "[(''description'', PStr ''D'')]" and caption = "[]"
      and topic = "''cats''" and ai = "Some 3" and B = mock_builtins]
  by (simp add: mock_upstream_def meme_text_def)

text \<open>
  The claim as first stated fails where \<open>memeUrl\<close> is missing: with everything else in
  place the result is the exception text, which does not contain the heading of the block.
\<close>

theorem generate_meme_missing_memeUrl_counterexample:
  "snd (generate_meme mock_builtins
        (mock_upstream (Inr \<lparr>status = 200, resp_text = Inr [],
           resp_json = Inr (PDict [(''success'', PBool True),
              (''article'', PDict [(''title'', PStr ''T''), (''description'', PStr ''D'')]),
              (''caption'', PDict [(''topText'', PStr ''X''), (''bottomText'', PStr ''Y'')])])\<rparr>))
        ''cats'' None) = [TextContent ''text'' (''Exception occurred: '' @ squote ''memeUrl'')]
   \<and> \<not> sublist ''Meme Generated'' (''Exception occurred: '' @ squote ''memeUrl'')"
  by (simp add: generate_meme_result with_response_def mock_upstream_def KeyError_def squote_def
        sublist_Cons_right)

end
